theory Spec2Isabelle
  imports Main "HOL-Library.AList" "HOL-Library.Sublist" "HOL-Library.Multiset"
begin

section \<open>Values and exceptions\<close>

text \<open>
  The value that \<open>json.loads\<close> returns: null, a boolean, a number, a string, a list or a
  dictionary. Python text is modelled as \<open>string\<close> by its UTF-8 bytes, so ASCII text by its
  characters. No byte of a character beyond ASCII is an ASCII character, and one UTF-8 text
  occurs in another at character boundaries only, so comparing, splitting and replacing act
  on the bytes as Python acts on the characters. What reads the characters themselves,
  \<open>str.isdigit\<close>, is the interpreter's and a parameter below. Numbers are the JSON integers
  (the extraction schema of \<open>api.py\<close> yields strings, booleans, lists and dictionaries
  only). A dictionary is an association list in insertion order.
\<close>

datatype json =
    JNull
  | JBool bool
  | JNum int
  | JStr string
  | JList "json list"
  | JObj "(string \<times> json) list"

type_synonym dict = "(string \<times> json) list"

text \<open>
  The exceptions that can be raised inside \<open>process_url\<close>. \<open>KeyError\<close> carries the missing
  key, \<open>JSONDecodeError\<close> and \<open>OtherException\<close> (anything else a collaborator raises) carry
  their message.
\<close>

datatype py_exn =
    JSONDecodeError string
  | KeyError json
  | IndexError
  | TypeError
  | AttributeError
  | OtherException string

subsection \<open>The collaborators of \<open>process_url\<close>\<close>

text \<open>What \<open>crawler.arun\<close> returns, as far as \<open>process_url\<close> reads it.\<close>

record crawl_result =
  success :: bool
  error_message :: string
  extracted_content :: string

text \<open>
  Code that \<open>api.py\<close> calls and does not define: the crawler (\<open>crawler.arun\<close>),
  \<open>json.loads\<close>, the decoded path of a URL (\<open>unquote(urlparse(url).path)\<close>), the text of
  an exception (\<open>str(e)\<close>) and \<open>str.isdigit\<close>, which is true of the texts that are not
  empty and consist of characters that Unicode classes as digits (the ASCII digits, and
  others such as the superscript two).
\<close>

record env =
  arun :: "string \<Rightarrow> py_exn + crawl_result"
  json_loads :: "string \<Rightarrow> py_exn + json"
  url_path :: "string \<Rightarrow> py_exn + string"
  exn_str :: "py_exn \<Rightarrow> string"
  str_isdigit :: "string \<Rightarrow> bool"

section \<open>Python primitives used by the normalizer\<close>

text \<open>Truth value of an object, as \<open>if x\<close> and \<open>not x\<close> test it.\<close>

fun py_truthy :: "json \<Rightarrow> bool" where
  "py_truthy JNull = False"
| "py_truthy (JBool b) = b"
| "py_truthy (JNum n) = (n \<noteq> 0)"
| "py_truthy (JStr s) = (s \<noteq> [])"
| "py_truthy (JList xs) = (xs \<noteq> [])"
| "py_truthy (JObj kvs) = (kvs \<noteq> [])"

text \<open>\<open>len(x)\<close>: defined on strings, lists and dictionaries, a TypeError elsewhere. (Of a
  string it is read here by its bytes; \<open>process_url\<close> only asks whether it is zero.)\<close>

fun py_len :: "json \<Rightarrow> py_exn + nat" where
  "py_len (JStr s) = Inr (length s)"
| "py_len (JList xs) = Inr (length xs)"
| "py_len (JObj kvs) = Inr (length kvs)"
| "py_len _ = Inl TypeError"

text \<open>
  \<open>x[0]\<close>: the first element of a list, the first character of a string, a KeyError on a
  dictionary (its keys are strings), a TypeError elsewhere. (Of a string the first byte
  stands for the first character; \<open>process_url\<close> only uses that the value is a string.)
\<close>

fun py_first :: "json \<Rightarrow> py_exn + json" where
  "py_first (JList []) = Inl IndexError"
| "py_first (JList (x # xs)) = Inr x"
| "py_first (JStr []) = Inl IndexError"
| "py_first (JStr (c # cs)) = Inr (JStr [c])"
| "py_first (JObj kvs) = Inl (KeyError (JNum 0))"
| "py_first _ = Inl TypeError"

text \<open>\<open>k in d\<close>, and \<open>k in d and d[k]\<close>, for a dictionary \<open>d\<close>.\<close>

definition has_key :: "string \<Rightarrow> dict \<Rightarrow> bool" where
  "has_key k d = (map_of d k \<noteq> None)"

definition key_truthy :: "string \<Rightarrow> dict \<Rightarrow> bool" where
  "key_truthy k d = (case map_of d k of None \<Rightarrow> False | Some v \<Rightarrow> py_truthy v)"

text \<open>\<open>for x in v\<close>: the elements of a list, the characters of a string, the keys of a
  dictionary; a TypeError on anything else. (The characters of a string are given byte by
  byte; \<open>process_url\<close> only uses that each is a string, and whether there is one.)\<close>

fun py_iter :: "json \<Rightarrow> py_exn + json list" where
  "py_iter (JList xs) = Inr xs"
| "py_iter (JStr s) = Inr (map (\<lambda>c. JStr [c]) s)"
| "py_iter (JObj kvs) = Inr (map (\<lambda>kv. JStr (fst kv)) kvs)"
| "py_iter _ = Inl TypeError"

text \<open>\<open>x[k]\<close> for a string key \<open>k\<close>: a lookup in a dictionary (KeyError when the key is
  missing), a TypeError on every other value.\<close>

fun py_getitem :: "json \<Rightarrow> string \<Rightarrow> py_exn + json" where
  "py_getitem (JObj kvs) k =
     (case map_of kvs k of None \<Rightarrow> Inl (KeyError (JStr k)) | Some v \<Rightarrow> Inr v)"
| "py_getitem _ k = Inl TypeError"

text \<open>A list comprehension whose element expression may raise: the first exception ends it.\<close>

fun comprehension :: "('a \<Rightarrow> py_exn + 'b) \<Rightarrow> 'a list \<Rightarrow> py_exn + 'b list" where
  "comprehension f [] = Inr []"
| "comprehension f (x # xs) =
     (case f x of
        Inl e \<Rightarrow> Inl e
      | Inr y \<Rightarrow> (case comprehension f xs of Inl e \<Rightarrow> Inl e | Inr ys \<Rightarrow> Inr (y # ys)))"

text \<open>
  \<open>s.split(sep)\<close> for a non-empty separator: the pieces between the non-overlapping
  occurrences of \<open>sep\<close>, found from the left. \<open>cur\<close> is the piece being read. (Python raises
  ValueError on an empty separator; every separator in \<open>process_url\<close> is a non-empty literal.)
\<close>

fun split_from :: "string \<Rightarrow> string \<Rightarrow> string \<Rightarrow> string list" where
  "split_from sep cur [] = [cur]"
| "split_from sep cur (c # cs) =
     (if sep \<noteq> [] \<and> prefix sep (c # cs)
      then cur # split_from sep [] (drop (length sep - 1) cs)
      else split_from sep (cur @ [c]) cs)"

definition py_split :: "string \<Rightarrow> string \<Rightarrow> string list" where
  "py_split sep s = split_from sep [] s"

text \<open>\<open>sep.join(xs)\<close>.\<close>

fun py_join :: "string \<Rightarrow> string list \<Rightarrow> string" where
  "py_join sep [] = []"
| "py_join sep [x] = x"
| "py_join sep (x # y # ys) = x @ sep @ py_join sep (y # ys)"

text \<open>
  \<open>s.replace(old, new)\<close> for a non-empty \<open>old\<close>: every non-overlapping occurrence of \<open>old\<close>,
  found from the left, becomes \<open>new\<close>. (\<open>process_url\<close> calls it with the literal \<open>'-'\<close> and with
  a truthy, hence non-empty, \<open>sex\<close>.)
\<close>

fun py_replace :: "string \<Rightarrow> string \<Rightarrow> string \<Rightarrow> string" where
  "py_replace old new [] = []"
| "py_replace old new (c # cs) =
     (if old \<noteq> [] \<and> prefix old (c # cs)
      then new @ py_replace old new (drop (length old - 1) cs)
      else c # py_replace old new cs)"

section \<open>The extraction schema\<close>

text \<open>The top-level fields of \<open>css_schema\<close> with their extraction modes, in the order of the
  source. A raw record is keyed by these names.\<close>

datatype field_mode = Text_mode | Attribute_mode | Exists_mode | List_mode | Nested_list_mode

definition css_schema :: "(string \<times> field_mode) list" where
  "css_schema =
     [(''title'', Text_mode), (''sex'', Text_mode), (''image'', Attribute_mode),
      (''accords'', List_mode),
      (''has_top_notes'', Exists_mode), (''has_middle_notes'', Exists_mode),
      (''has_base_notes'', Exists_mode),
      (''top_notes'', Nested_list_mode), (''middle_notes'', Nested_list_mode),
      (''base_notes'', Nested_list_mode), (''unclassified_notes'', Nested_list_mode)]"

definition schema_keyed :: "dict \<Rightarrow> bool" where
  "schema_keyed item = list_all (\<lambda>kv. fst kv \<in> set (map fst css_schema)) item"

section \<open>The normalizer: \<open>process_url\<close>, lines 205 to 279\<close>

text \<open>
  \<open>if "accords" in item: item["accords"] = [accord["text"] for accord in item["accords"]]\<close>
\<close>

definition flatten_accords :: "dict \<Rightarrow> py_exn + dict" where
  "flatten_accords item =
     (case map_of item ''accords'' of
        None \<Rightarrow> Inr item
      | Some v \<Rightarrow>
          (case py_iter v of
             Inl e \<Rightarrow> Inl e
           | Inr accs \<Rightarrow>
               (case comprehension (\<lambda>accord. py_getitem accord ''text'') accs of
                  Inl e \<Rightarrow> Inl e
                | Inr texts \<Rightarrow> Inr (AList.update ''accords'' (JList texts) item))))"

text \<open>The three \<open>if "has_..._notes" in item and item["has_..._notes"]\<close> tests.\<close>

definition has_classified_notes :: "dict \<Rightarrow> bool" where
  "has_classified_notes item =
     (key_truthy ''has_top_notes'' item \<or> key_truthy ''has_middle_notes'' item
      \<or> key_truthy ''has_base_notes'' item)"

text \<open>
  One block \<open>if field in item: (if [allowed and] item[field]: notes[category] = item[field]);
  del item[field]\<close>, on the pair of \<open>item\<close> and \<open>notes\<close>. \<open>allowed\<close> is \<open>True\<close> for the three
  classified fields and \<open>not has_classified_notes\<close> for \<open>unclassified_notes\<close>.
\<close>

definition move_notes :: "string \<Rightarrow> string \<Rightarrow> bool \<Rightarrow> dict \<times> dict \<Rightarrow> dict \<times> dict" where
  "move_notes field category allowed st =
     (case map_of (fst st) field of
        None \<Rightarrow> st
      | Some v \<Rightarrow>
          (AList.delete field (fst st),
           if allowed \<and> py_truthy v then AList.update category v (snd st) else snd st))"

text \<open>\<open>if k in item: del item[k]\<close>\<close>

definition del_if_present :: "string \<Rightarrow> dict \<Rightarrow> dict" where
  "del_if_present k item = (if has_key k item then AList.delete k item else item)"

text \<open>Lines 224 to 246: the four blocks in the order of the source, starting from
  \<open>notes = {}\<close>.\<close>

definition collect_notes :: "dict \<Rightarrow> dict \<times> dict" where
  "collect_notes item =
     (let classified = has_classified_notes item;
          st1 = move_notes ''top_notes'' ''top'' True (item, []);
          st2 = move_notes ''middle_notes'' ''middle'' True st1;
          st3 = move_notes ''base_notes'' ''base'' True st2
      in move_notes ''unclassified_notes'' ''unclassified'' (\<not> classified) st3)"

text \<open>Lines 212 to 257: the notes are collected, the flags deleted, and
  \<open>item["notes"] = notes\<close> stored.\<close>

definition process_notes :: "dict \<Rightarrow> dict" where
  "process_notes item =
     (let st = collect_notes item;
          item1 = del_if_present ''has_top_notes'' (fst st);
          item2 = del_if_present ''has_middle_notes'' item1;
          item3 = del_if_present ''has_base_notes'' item2
      in AList.update ''notes'' (JObj (snd st)) item3)"

text \<open>Line 262: \<open>len(path_parts) >= 4 and path_parts[1] == "perfume"\<close>\<close>

definition perfume_path :: "string list \<Rightarrow> bool" where
  "perfume_path path_parts = (4 \<le> length path_parts \<and> path_parts ! 1 = ''perfume'')"

text \<open>Line 264: \<open>path_parts[2].replace('-', ' ')\<close>\<close>

definition house_of :: "string \<Rightarrow> string" where
  "house_of segment = py_replace ''-'' '' '' segment"

text \<open>
  Lines 267 and 269. \<open>split\<close> returns at least one piece, so \<open>[0]\<close> and \<open>[-1]\<close> never
  raise (lemma \<open>py_split_not_Nil\<close>); \<open>[:-1]\<close> is \<open>butlast\<close>; \<open>isdigit\<close> is the
  interpreter's.
\<close>

definition perfume_name_of :: "env \<Rightarrow> string \<Rightarrow> string" where
  "perfume_name_of env segment =
     (let perfume_name_raw = hd (py_split ''.html'' segment);
          tokens = py_split ''-'' perfume_name_raw
      in py_join '' '' (if str_isdigit env (last tokens) then butlast tokens else tokens))"

text \<open>
  Lines 276 and 277. A title that is not a string has no \<open>replace\<close> (AttributeError); a
  truthy \<open>sex\<close> that is not a string is refused by \<open>str.replace\<close> (TypeError).
\<close>

definition clean_title :: "dict \<Rightarrow> py_exn + dict" where
  "clean_title item =
     (if has_key ''sex'' item \<and> key_truthy ''sex'' item \<and> has_key ''title'' item then
        (case map_of item ''title'' of
           Some (JStr title) \<Rightarrow>
             (case map_of item ''sex'' of
                Some (JStr sex) \<Rightarrow> Inr (AList.update ''title'' (JStr (py_replace sex [] title)) item)
              | _ \<Rightarrow> Inl TypeError)
         | _ \<Rightarrow> Inl AttributeError)
      else Inr item)"

text \<open>Lines 260 to 277 on a dictionary whose notes are processed.\<close>

definition derive_from_url :: "env \<Rightarrow> string \<Rightarrow> dict \<Rightarrow> py_exn + dict" where
  "derive_from_url env url item =
     (case url_path env url of
        Inl e \<Rightarrow> Inl e
      | Inr path \<Rightarrow>
          (let path_parts = py_split ''/'' path in
           if perfume_path path_parts then
             clean_title
               (AList.update ''perfume_name'' (JStr (perfume_name_of env (path_parts ! 3)))
                 (AList.update ''house'' (JStr (house_of (path_parts ! 2))) item))
           else Inr item))"

text \<open>
  Lines 205 to 279 on \<open>item = data[0]\<close>. An \<open>item\<close> that is not a dictionary raises TypeError
  on every path: \<open>"accords" in item\<close> raises on null, a boolean and a number; on a string
  or a list each \<open>item[key]\<close> and \<open>del item[key]\<close> behind a successful \<open>in\<close> test raises it,
  and \<open>item["notes"] = notes\<close> raises it when none of them was reached.
\<close>

definition normalize :: "env \<Rightarrow> string \<Rightarrow> json \<Rightarrow> py_exn + dict" where
  "normalize env url data0 =
     (case data0 of
        JObj item \<Rightarrow>
          (case flatten_accords item of
             Inl e \<Rightarrow> Inl e
           | Inr item1 \<Rightarrow> derive_from_url env url (process_notes item1))
      | _ \<Rightarrow> Inl TypeError)"

section \<open>\<open>process_url\<close> and \<open>scrape_fragrances\<close>\<close>

definition error_entry :: "string \<Rightarrow> dict" where
  "error_entry error_msg = [(''error'', JStr error_msg)]"

text \<open>The body of the outer \<open>try\<close> of \<open>process_url\<close>: \<open>Inr\<close> is what it returns, \<open>Inl\<close> what it
  raises.\<close>

definition process_url_body :: "env \<Rightarrow> string \<Rightarrow> py_exn + dict" where
  "process_url_body env url =
     (case arun env url of
        Inl e \<Rightarrow> Inl e
      | Inr result \<Rightarrow>
          if \<not> success result then
            Inr (error_entry (''Failed to crawl '' @ url @ '': '' @ error_message result))
          else
            (case json_loads env (extracted_content result) of
               Inl (JSONDecodeError m) \<Rightarrow>
                 Inr (error_entry (''Failed to parse JSON from '' @ url @ '': ''
                                    @ exn_str env (JSONDecodeError m)))
             | Inl e \<Rightarrow> Inl e
             | Inr data \<Rightarrow>
                 if \<not> py_truthy data then
                   Inr (error_entry (''No data extracted from '' @ url))
                 else
                   (case py_len data of
                      Inl e \<Rightarrow> Inl e
                    | Inr n \<Rightarrow>
                        if n = 0 then Inr (error_entry (''No data extracted from '' @ url))
                        else (case py_first data of
                                Inl e \<Rightarrow> Inl e
                              | Inr item \<Rightarrow> normalize env url item))))"

text \<open>\<open>except Exception as e: return {"error": f"Error processing {url}: {str(e)}"}\<close>\<close>

definition process_url :: "env \<Rightarrow> string \<Rightarrow> dict" where
  "process_url env url =
     (case process_url_body env url of
        Inl e \<Rightarrow> error_entry (''Error processing '' @ url @ '': '' @ exn_str env e)
      | Inr item \<Rightarrow> item)"

text \<open>
  Lines 302 to 317. \<open>asyncio.gather\<close> returns the outcomes in the order of the tasks, one for
  each URL; the loop appends each to \<open>errors\<close> or to \<open>results\<close>. The pair is
  \<open>(results, errors)\<close>.
\<close>

definition partition_step :: "dict \<Rightarrow> dict list \<times> dict list \<Rightarrow> dict list \<times> dict list" where
  "partition_step result acc =
     (if has_key ''error'' result then (fst acc, snd acc @ [result])
      else (fst acc @ [result], snd acc))"

definition scrape_fragrances :: "env \<Rightarrow> string list \<Rightarrow> dict list \<times> dict list" where
  "scrape_fragrances env urls =
     (let processed_results = map (process_url env) urls
      in fold partition_step processed_results ([], []))"

section \<open>The specification's wording, for comparison\<close>




section \<open>Sample inputs\<close>

text \<open>\<open>str.isdigit\<close> on text of ASCII and Latin-1 characters: not empty, and each character
  an ASCII digit or one of the superscripts one, two and three (in UTF-8 the byte C2 and
  then B9, B2 or B3), the digits that Unicode has in that range.\<close>

fun digits_only :: "string \<Rightarrow> bool" where
  "digits_only [] = True"
| "digits_only [c] = (c \<in> set ''0123456789'')"
| "digits_only (c # d # cs) =
     (if c \<in> set ''0123456789'' then digits_only (d # cs)
      else c = CHR 0xC2 \<and> d \<in> set [CHR 0xB9, CHR 0xB2, CHR 0xB3] \<and> digits_only cs)"

definition latin1_isdigit :: "string \<Rightarrow> bool" where
  "latin1_isdigit s = (s \<noteq> [] \<and> digits_only s)"

text \<open>An environment in which every crawl succeeds, the extracted content parses to \<open>data\<close>
  and every URL has the decoded path \<open>path\<close>.\<close>

definition page_env :: "json \<Rightarrow> string \<Rightarrow> env" where
  "page_env data path =
     \<lparr>arun = (\<lambda>url. Inr \<lparr>success = True, error_message = [], extracted_content = []\<rparr>),
      json_loads = (\<lambda>content. Inr data),
      url_path = (\<lambda>url. Inr path),
      exn_str = (\<lambda>e. case e of JSONDecodeError m \<Rightarrow> m | OtherException m \<Rightarrow> m
                         | KeyError k \<Rightarrow> ''key'' | _ \<Rightarrow> []),
      str_isdigit = latin1_isdigit\<rparr>"

definition zino_url :: string where
  "zino_url = ''https://www.fragrantica.com/perfume/Davidoff/Zino-Davidoff-590.html''"

definition zino_path :: string where
  "zino_path = ''/perfume/Davidoff/Zino-Davidoff-590.html''"

definition bergamot :: json where
  "bergamot = JObj [(''name'', JStr ''Bergamot''), (''image'', JStr ''a.jpg'')]"

definition musk :: json where
  "musk = JObj [(''name'', JStr ''Musk''), (''image'', JStr ''m.jpg'')]"

text \<open>A raw record of the schema: the classified case of the specification's examples.\<close>

definition zino_item :: dict where
  "zino_item =
     [(''title'', JStr ''Zino for women and men''),
      (''sex'', JStr ''for women and men''),
      (''accords'', JList [JObj [(''text'', JStr ''Woody'')], JObj [(''text'', JStr ''Spicy'')]]),
      (''has_top_notes'', JBool True),
      (''has_middle_notes'', JBool False),
      (''has_base_notes'', JBool False),
      (''top_notes'', JList [bergamot]),
      (''middle_notes'', JList []),
      (''base_notes'', JList []),
      (''unclassified_notes'', JList [musk])]"

definition zino_out :: dict where
  "zino_out =
     [(''title'', JStr ''Zino ''),
      (''sex'', JStr ''for women and men''),
      (''accords'', JList [JStr ''Woody'', JStr ''Spicy'']),
      (''notes'', JObj [(''top'', JList [bergamot])]),
      (''house'', JStr ''Davidoff''),
      (''perfume_name'', JStr ''Zino Davidoff'')]"

definition zino_env :: env where
  "zino_env = page_env (JList [JObj zino_item]) zino_path"


definition numeric_path :: string where
  "numeric_path = ''/perfume/SomeHouse/590.html''"

definition designer_path :: string where
  "designer_path = ''/designers/Davidoff.html''"


definition superscript_path :: string where
  "superscript_path = ''/perfume/SomeHouse/'' @ [CHR 0xC2, CHR 0xB2] @ ''.html''"


text \<open>A raw record with top notes and unclassified notes and no flag set, one without
  accords, and one whose accord has no \<open>text\<close>.\<close>

definition unflagged_item :: dict where
  "unflagged_item =
     [(''has_top_notes'', JBool False),
      (''has_middle_notes'', JBool False),
      (''has_base_notes'', JBool False),
      (''top_notes'', JList [bergamot]),
      (''unclassified_notes'', JList [musk])]"


definition textless_item :: dict where
  "textless_item = [(''accords'', JList [JObj [(''label'', JStr ''Woody'')]])]"

text \<open>A batch of three pages: the sample page, a page whose accord has no \<open>text\<close>, and a
  page on which nothing is extracted. The crawler hands back the URL as content, and
  \<open>json_loads\<close> maps it to the page's records.\<close>

definition textless_url :: string where
  "textless_url = ''https://www.fragrantica.com/perfume/Dior/Sauvage-31861.html''"

definition empty_url :: string where
  "empty_url = ''https://www.fragrantica.com/perfume/Acme/Nothing-1.html''"

definition batch_env :: env where
  "batch_env =
     \<lparr>arun = (\<lambda>url. Inr \<lparr>success = True, error_message = [], extracted_content = url\<rparr>),
      json_loads = (\<lambda>content. Inr (if content = zino_url then JList [JObj zino_item]
                                      else if content = textless_url
                                      then JList [JObj textless_item] else JList [])),
      url_path = (\<lambda>url. Inr zino_path),
      exn_str = (\<lambda>e. case e of JSONDecodeError m \<Rightarrow> m | OtherException m \<Rightarrow> m
                         | KeyError k \<Rightarrow> ''key'' | _ \<Rightarrow> []),
      str_isdigit = latin1_isdigit\<rparr>"

text \<open>What \<open>normalize\<close> returns on these inputs (checked by evaluation below).\<close>

definition numeric_out :: dict where
  "numeric_out =
     [(''title'', JStr ''Zino ''),
      (''sex'', JStr ''for women and men''),
      (''accords'', JList [JStr ''Woody'', JStr ''Spicy'']),
      (''notes'', JObj [(''top'', JList [bergamot])]),
      (''house'', JStr ''SomeHouse''),
      (''perfume_name'', JStr [])]"

definition designer_out :: dict where
  "designer_out =
     [(''title'', JStr ''Zino for women and men''),
      (''sex'', JStr ''for women and men''),
      (''accords'', JList [JStr ''Woody'', JStr ''Spicy'']),
      (''notes'', JObj [(''top'', JList [bergamot])])]"



definition unflagged_out :: dict where
  "unflagged_out =
     [(''notes'', JObj [(''top'', JList [bergamot]), (''unclassified'', JList [musk])]),
      (''house'', JStr ''Davidoff''),
      (''perfume_name'', JStr ''Zino Davidoff'')]"



text \<open>The unclassified case of the specification's examples, and what \<open>normalize\<close> returns
  on it.\<close>

definition musk_item :: dict where
  "musk_item =
     [(''has_top_notes'', JBool False),
      (''has_middle_notes'', JBool False),
      (''has_base_notes'', JBool False),
      (''unclassified_notes'', JList [musk])]"

definition musk_out :: dict where
  "musk_out =
     [(''notes'', JObj [(''unclassified'', JList [musk])]),
      (''house'', JStr ''Davidoff''),
      (''perfume_name'', JStr ''Zino Davidoff'')]"

section \<open>Facts about the string primitives\<close>

lemma split_from_not_Nil: "split_from sep cur s \<noteq> []"
  by (induction sep cur s rule: split_from.induct) auto

lemma py_split_not_Nil: "py_split sep s \<noteq> []"
  by (simp add: py_split_def split_from_not_Nil)



lemma split_from_no_sep: "c \<notin> set s \<Longrightarrow> split_from [c] cur s = [cur @ s]"
  by (induction s arbitrary: cur) auto

lemma py_split_no_hyphen: "CHR ''-'' \<notin> set s \<Longrightarrow> py_split ''-'' s = [s]"
  using split_from_no_sep [of "CHR ''-''" s "[]"] by (simp add: py_split_def)


section \<open>Facts about the notes step\<close>

lemma map_of_del_if_present: "map_of (del_if_present k d) = (map_of d)(k := None)"
  by (auto simp: del_if_present_def has_key_def delete_conv')

lemma move_notes_item: "map_of (fst (move_notes f c a st)) = (map_of (fst st))(f := None)"
  by (auto simp: move_notes_def delete_conv' split: option.splits)

lemma move_notes_notes:
  "map_of (snd (move_notes f c a st)) =
     (if a \<and> key_truthy f (fst st) then (map_of (snd st))(c := map_of (fst st) f)
      else map_of (snd st))"
  by (auto simp: move_notes_def key_truthy_def update_conv' split: option.splits)

lemma key_truthy_move_notes:
  "key_truthy k (fst (move_notes f c a st)) = (k \<noteq> f \<and> key_truthy k (fst st))"
  by (simp add: key_truthy_def move_notes_item)

lemma collect_notes_item:
  "map_of (fst (collect_notes item)) =
     (map_of item)(''top_notes'' := None, ''middle_notes'' := None, ''base_notes'' := None,
                   ''unclassified_notes'' := None)"
  by (simp add: collect_notes_def Let_def move_notes_item)

lemma collect_notes_top:
  "map_of (snd (collect_notes item)) ''top'' =
     (if key_truthy ''top_notes'' item then map_of item ''top_notes'' else None)"
  by (simp add: collect_notes_def Let_def move_notes_notes move_notes_item key_truthy_move_notes)

lemma collect_notes_middle:
  "map_of (snd (collect_notes item)) ''middle'' =
     (if key_truthy ''middle_notes'' item then map_of item ''middle_notes'' else None)"
  by (simp add: collect_notes_def Let_def move_notes_notes move_notes_item key_truthy_move_notes)

lemma collect_notes_base:
  "map_of (snd (collect_notes item)) ''base'' =
     (if key_truthy ''base_notes'' item then map_of item ''base_notes'' else None)"
  by (simp add: collect_notes_def Let_def move_notes_notes move_notes_item key_truthy_move_notes)

lemma collect_notes_unclassified:
  "map_of (snd (collect_notes item)) ''unclassified'' =
     (if \<not> has_classified_notes item \<and> key_truthy ''unclassified_notes'' item
      then map_of item ''unclassified_notes'' else None)"
  by (simp add: collect_notes_def Let_def move_notes_notes move_notes_item key_truthy_move_notes)

lemma process_notes_lookup:
  "map_of (process_notes item) =
     (map_of item)(''top_notes'' := None, ''middle_notes'' := None, ''base_notes'' := None,
                   ''unclassified_notes'' := None, ''has_top_notes'' := None,
                   ''has_middle_notes'' := None, ''has_base_notes'' := None,
                   ''notes'' \<mapsto> JObj (snd (collect_notes item)))"
  by (simp add: process_notes_def Let_def update_conv' map_of_del_if_present collect_notes_item)

section \<open>Facts about the accords, title and URL steps\<close>


lemma comprehension_InrD:
  "comprehension f xs = Inr ys \<Longrightarrow> list_all2 (\<lambda>x y. f x = Inr y) xs ys"
  by (induction xs arbitrary: ys) (auto split: sum.splits)

lemma comprehension_Inl:
  "x \<in> set xs \<Longrightarrow> f x = Inl e \<Longrightarrow> \<exists>e'. comprehension f xs = Inl e'"
  by (induction xs) (auto split: sum.splits)

lemma flatten_accords_other:
  "flatten_accords item = Inr item1 \<Longrightarrow> k \<noteq> ''accords'' \<Longrightarrow> map_of item1 k = map_of item k"
  by (auto simp: flatten_accords_def update_conv' split: option.splits sum.splits)



lemma flatten_accords_missing_text:
  assumes "map_of item ''accords'' = Some (JList accs)"
    and "accord \<in> set accs" and "py_getitem accord ''text'' = Inl e"
  shows "\<exists>e'. flatten_accords item = Inl e'"
proof -
  from comprehension_Inl [of accord accs "\<lambda>accord. py_getitem accord ''text''" e] assms(2,3)
  obtain e' where
    "comprehension (\<lambda>accord. py_getitem accord ''text'') accs = Inl e'" by blast
  with assms(1) show ?thesis by (simp add: flatten_accords_def)
qed

lemma key_truthy_flatten_accords:
  "flatten_accords item = Inr item1 \<Longrightarrow> k \<noteq> ''accords'' \<Longrightarrow> key_truthy k item1 = key_truthy k item"
  by (simp add: key_truthy_def flatten_accords_other)

lemma has_classified_notes_flatten_accords:
  "flatten_accords item = Inr item1 \<Longrightarrow> has_classified_notes item1 = has_classified_notes item"
  by (simp add: has_classified_notes_def key_truthy_flatten_accords)

lemma clean_title_other:
  "clean_title item = Inr out \<Longrightarrow> k \<noteq> ''title'' \<Longrightarrow> map_of out k = map_of item k"
  by (auto simp: clean_title_def update_conv' split: if_splits option.splits json.splits)


lemma derive_from_url_no_match:
  "url_path env url = Inr path \<Longrightarrow> \<not> perfume_path (py_split ''/'' path)
   \<Longrightarrow> derive_from_url env url item = Inr item"
  by (simp add: derive_from_url_def)

lemma derive_from_url_match:
  "url_path env url = Inr path \<Longrightarrow> perfume_path (py_split ''/'' path)
   \<Longrightarrow> derive_from_url env url item =
       clean_title
         (AList.update ''perfume_name'' (JStr (perfume_name_of env (py_split ''/'' path ! 3)))
           (AList.update ''house'' (JStr (house_of (py_split ''/'' path ! 2))) item))"
  by (simp add: derive_from_url_def Let_def)

lemma normalize_InrD:
  "normalize env url (JObj item) = Inr out \<Longrightarrow>
     \<exists>item1 path. flatten_accords item = Inr item1 \<and> url_path env url = Inr path
       \<and> derive_from_url env url (process_notes item1) = Inr out"
  by (auto simp: normalize_def derive_from_url_def split: sum.splits)

section \<open>What \<open>normalize\<close> returns, key by key\<close>

lemma derive_from_url_other:
  assumes "derive_from_url env url d = Inr out"
    and "k \<noteq> ''title''" and "k \<noteq> ''house''" and "k \<noteq> ''perfume_name''"
  shows "map_of out k = map_of d k"
proof -
  from assms(1) obtain path where p: "url_path env url = Inr path"
    by (auto simp: derive_from_url_def split: sum.splits)
  show ?thesis
  proof (cases "perfume_path (py_split ''/'' path)")
    case True
    from assms(1) have "clean_title
         (AList.update ''perfume_name'' (JStr (perfume_name_of env (py_split ''/'' path ! 3)))
           (AList.update ''house'' (JStr (house_of (py_split ''/'' path ! 2))) d)) = Inr out"
      by (simp add: derive_from_url_match [OF p True])
    from clean_title_other [OF this assms(2)] assms(3,4) show ?thesis
      by (simp add: update_conv')
  next
    case False
    with assms(1) p show ?thesis by (simp add: derive_from_url_no_match)
  qed
qed

lemma derive_from_url_names:
  assumes "derive_from_url env url d = Inr out" and "url_path env url = Inr path"
    and "perfume_path (py_split ''/'' path)"
  shows "map_of out ''house'' = Some (JStr (house_of (py_split ''/'' path ! 2)))"
    and "map_of out ''perfume_name'' = Some (JStr (perfume_name_of env (py_split ''/'' path ! 3)))"
proof -
  from assms have c: "clean_title
         (AList.update ''perfume_name'' (JStr (perfume_name_of env (py_split ''/'' path ! 3)))
           (AList.update ''house'' (JStr (house_of (py_split ''/'' path ! 2))) d)) = Inr out"
    by (simp add: derive_from_url_match)
  from clean_title_other [OF c, of "''house''"]
  show "map_of out ''house'' = Some (JStr (house_of (py_split ''/'' path ! 2)))"
    by (simp add: update_conv')
  from clean_title_other [OF c, of "''perfume_name''"]
  show "map_of out ''perfume_name'' = Some (JStr (perfume_name_of env (py_split ''/'' path ! 3)))"
    by (simp add: update_conv')
qed


lemma normalize_notes:
  assumes "normalize env url (JObj item) = Inr out"
  shows "\<exists>item1. flatten_accords item = Inr item1
           \<and> map_of out ''notes'' = Some (JObj (snd (collect_notes item1)))"
proof -
  from normalize_InrD [OF assms] obtain item1 path where
    f: "flatten_accords item = Inr item1" and
    d: "derive_from_url env url (process_notes item1) = Inr out" by blast
  from derive_from_url_other [OF d, of "''notes''"]
  have "map_of out ''notes'' = Some (JObj (snd (collect_notes item1)))"
    by (simp add: process_notes_lookup)
  with f show ?thesis by blast
qed




section \<open>Evaluation on the sample inputs\<close>

lemma zino_normalize: "normalize zino_env zino_url (JObj zino_item) = Inr zino_out"
  by code_simp

lemma numeric_normalize:
  "normalize (page_env (JList [JObj zino_item]) numeric_path) zino_url (JObj zino_item)
     = Inr numeric_out"
  by code_simp

lemma superscript_normalize:
  "normalize (page_env (JList [JObj zino_item]) superscript_path) zino_url (JObj zino_item)
     = Inr numeric_out"
  by code_simp


lemma designer_normalize:
  "normalize (page_env (JList [JObj zino_item]) designer_path) zino_url (JObj zino_item)
     = Inr designer_out"
  by code_simp



lemma unflagged_normalize:
  "normalize zino_env zino_url (JObj unflagged_item) = Inr unflagged_out"
  by code_simp


lemma musk_normalize: "normalize zino_env zino_url (JObj musk_item) = Inr musk_out"
  by code_simp

lemma textless_normalize:
  "normalize zino_env zino_url (JObj textless_item) = Inl (KeyError (JStr ''text''))"
  by code_simp

lemma page_env_url_path: "url_path (page_env data path) url = Inr path"
  by (simp add: page_env_def)

lemma zino_env_url_path: "url_path zino_env url = Inr zino_path"
  by (simp add: zino_env_def page_env_def)

section \<open>The derived names\<close>

lemma perfume_name_of_digits:
  assumes "str_isdigit env (hd (py_split ''.html'' segment))"
    and "CHR ''-'' \<notin> set (hd (py_split ''.html'' segment))"
  shows "perfume_name_of env segment = []"
  using assms by (simp add: perfume_name_of_def Let_def py_split_no_hyphen)

text \<open>
  C10. When the decoded path is a perfume path and its fourth segment, cut at the first
  \<open>.html\<close>, is one token (it has no \<open>-\<close>) that \<open>isdigit\<close> accepts, \<open>perfume_name\<close> is
  present and empty, and \<open>house\<close> is set as usual.
\<close>

theorem numeric_segment_empty_perfume_name:
  assumes "normalize env url (JObj item) = Inr out"
    and "url_path env url = Inr path"
    and "perfume_path (py_split ''/'' path)"
    and "str_isdigit env (hd (py_split ''.html'' (py_split ''/'' path ! 3)))"
    and "CHR ''-'' \<notin> set (hd (py_split ''.html'' (py_split ''/'' path ! 3)))"
  shows "map_of out ''perfume_name'' = Some (JStr [])
       \<and> map_of out ''house'' = Some (JStr (py_replace ''-'' '' '' (py_split ''/'' path ! 2)))"
proof -
  from normalize_InrD [OF assms(1)] obtain item1 where
    d: "derive_from_url env url (process_notes item1) = Inr out" by blast
  from derive_from_url_names [OF d assms(2,3)] perfume_name_of_digits [OF assms(4,5)]
  show ?thesis by (simp add: house_of_def)
qed

theorem numeric_segment_empty_perfume_name_witness:
  "perfume_path (py_split ''/'' numeric_path)
   \<and> hd (py_split ''.html'' (py_split ''/'' numeric_path ! 3)) = ''590''
   \<and> str_isdigit (page_env (JList [JObj zino_item]) numeric_path) ''590''
   \<and> map_of numeric_out ''perfume_name'' = Some (JStr [])
   \<and> map_of numeric_out ''house'' = Some (JStr ''SomeHouse'')
   \<and> perfume_path (py_split ''/'' superscript_path)
   \<and> hd (py_split ''.html'' (py_split ''/'' superscript_path ! 3)) = [CHR 0xC2, CHR 0xB2]
   \<and> str_isdigit (page_env (JList [JObj zino_item]) superscript_path) [CHR 0xC2, CHR 0xB2]
   \<and> normalize (page_env (JList [JObj zino_item]) superscript_path) zino_url (JObj zino_item)
       = Inr numeric_out"
proof -
  have m: "perfume_path (py_split ''/'' numeric_path)" by code_simp
  have t: "hd (py_split ''.html'' (py_split ''/'' numeric_path ! 3)) = ''590''" by code_simp
  have g: "str_isdigit (page_env (JList [JObj zino_item]) numeric_path) ''590''" by code_simp
  have h: "py_replace ''-'' '' '' (py_split ''/'' numeric_path ! 2) = ''SomeHouse''" by code_simp
  have m': "perfume_path (py_split ''/'' superscript_path)" by code_simp
  have t': "hd (py_split ''.html'' (py_split ''/'' superscript_path ! 3)) = [CHR 0xC2, CHR 0xB2]"
    by code_simp
  have g': "str_isdigit (page_env (JList [JObj zino_item]) superscript_path)
      [CHR 0xC2, CHR 0xB2]" by code_simp
  from numeric_segment_empty_perfume_name [OF numeric_normalize page_env_url_path m] t g h
  have a: "map_of numeric_out ''perfume_name'' = Some (JStr [])
      \<and> map_of numeric_out ''house'' = Some (JStr ''SomeHouse'')" by simp
  have h': "py_replace ''-'' '' '' (py_split ''/'' superscript_path ! 2) = ''SomeHouse''"
    by code_simp
  from numeric_segment_empty_perfume_name [OF superscript_normalize page_env_url_path m'] t' g' h'
  have a': "map_of numeric_out ''perfume_name'' = Some (JStr [])
      \<and> map_of numeric_out ''house'' = Some (JStr ''SomeHouse'')" by simp
  from m t g a m' t' g' a' superscript_normalize show ?thesis by blast
qed

section \<open>Notes\<close>



text \<open>
  C3, as the code has it. \<open>unclassified\<close> is stored only when no flag is true and
  \<open>unclassified_notes\<close> is non-empty. So when every non-empty classified field comes with its
  true flag, \<open>notes\<close> never holds \<open>unclassified\<close> next to \<open>top\<close>, \<open>middle\<close> or \<open>base\<close>.
\<close>

theorem unclassified_only_without_flags:
  assumes "normalize env url (JObj item) = Inr out"
  shows "\<exists>notes. map_of out ''notes'' = Some (JObj notes)
     \<and> (has_key ''unclassified'' notes \<longrightarrow>
          \<not> has_classified_notes item \<and> key_truthy ''unclassified_notes'' item)
     \<and> ((key_truthy ''top_notes'' item \<longrightarrow> key_truthy ''has_top_notes'' item)
          \<and> (key_truthy ''middle_notes'' item \<longrightarrow> key_truthy ''has_middle_notes'' item)
          \<and> (key_truthy ''base_notes'' item \<longrightarrow> key_truthy ''has_base_notes'' item)
        \<longrightarrow> \<not> (has_key ''unclassified'' notes
                \<and> (has_key ''top'' notes \<or> has_key ''middle'' notes \<or> has_key ''base'' notes)))"
proof -
  from normalize_notes [OF assms] obtain item1 where
    f: "flatten_accords item = Inr item1" and
    n: "map_of out ''notes'' = Some (JObj (snd (collect_notes item1)))" by blast
  let ?notes = "snd (collect_notes item1)"
  have u: "has_key ''unclassified'' ?notes \<longrightarrow>
          \<not> has_classified_notes item \<and> key_truthy ''unclassified_notes'' item"
    by (simp add: has_key_def collect_notes_unclassified
        has_classified_notes_flatten_accords [OF f] key_truthy_flatten_accords [OF f])
  have t: "has_key ''top'' ?notes \<longrightarrow> key_truthy ''top_notes'' item"
    by (simp add: has_key_def collect_notes_top key_truthy_flatten_accords [OF f])
  have m: "has_key ''middle'' ?notes \<longrightarrow> key_truthy ''middle_notes'' item"
    by (simp add: has_key_def collect_notes_middle key_truthy_flatten_accords [OF f])
  have b: "has_key ''base'' ?notes \<longrightarrow> key_truthy ''base_notes'' item"
    by (simp add: has_key_def collect_notes_base key_truthy_flatten_accords [OF f])
  from n u t m b show ?thesis unfolding has_classified_notes_def by blast
qed

theorem unclassified_only_without_flags_witness:
  "key_truthy ''top_notes'' zino_item \<and> key_truthy ''has_top_notes'' zino_item
   \<and> \<not> key_truthy ''middle_notes'' zino_item
   \<and> \<not> key_truthy ''base_notes'' zino_item
   \<and> (\<exists>notes. map_of zino_out ''notes'' = Some (JObj notes)
        \<and> \<not> (has_key ''unclassified'' notes
                \<and> (has_key ''top'' notes \<or> has_key ''middle'' notes \<or> has_key ''base'' notes)))
   \<and> map_of musk_out ''notes'' = Some (JObj [(''unclassified'', JList [musk])])
   \<and> has_key ''unclassified'' [(''unclassified'', JList [musk])]
   \<and> \<not> has_classified_notes musk_item
   \<and> key_truthy ''unclassified_notes'' musk_item"
proof -
  have k: "key_truthy ''top_notes'' zino_item" "key_truthy ''has_top_notes'' zino_item"
    "\<not> key_truthy ''middle_notes'' zino_item" "\<not> key_truthy ''base_notes'' zino_item"
    by code_simp+
  from unclassified_only_without_flags [OF zino_normalize] k
  have z: "\<exists>notes. map_of zino_out ''notes'' = Some (JObj notes)
        \<and> \<not> (has_key ''unclassified'' notes
                \<and> (has_key ''top'' notes \<or> has_key ''middle'' notes \<or> has_key ''base'' notes))"
    by blast
  have n: "map_of musk_out ''notes'' = Some (JObj [(''unclassified'', JList [musk])])"
    by (simp add: musk_out_def)
  have u: "has_key ''unclassified'' [(''unclassified'', JList [musk])]"
    by (simp add: has_key_def)
  from unclassified_only_without_flags [OF musk_normalize] n u
  have m: "\<not> has_classified_notes musk_item \<and> key_truthy ''unclassified_notes'' musk_item"
    by auto
  from k z n u m show ?thesis by (intro conjI) simp_all
qed

theorem unclassified_mixed_counterexample:
  "normalize zino_env zino_url (JObj unflagged_item) = Inr unflagged_out
   \<and> map_of unflagged_out ''notes''
       = Some (JObj [(''top'', JList [bergamot]), (''unclassified'', JList [musk])])
   \<and> has_key ''unclassified'' [(''top'', JList [bergamot]), (''unclassified'', JList [musk])]
   \<and> has_key ''top'' [(''top'', JList [bergamot]), (''unclassified'', JList [musk])]"
  using unflagged_normalize by (simp add: unflagged_out_def has_key_def)


section \<open>Accords\<close>




section \<open>House and perfume name\<close>

lemma schema_keyed_absent:
  assumes "schema_keyed item" and "k \<notin> set (map fst css_schema)"
  shows "map_of item k = None"
proof (rule ccontr)
  assume "map_of item k \<noteq> None"
  then obtain v where "(k, v) \<in> set item" by (auto dest: map_of_SomeD)
  moreover from assms(1) have "\<forall>kv\<in>set item. fst kv \<in> set (map fst css_schema)"
    unfolding schema_keyed_def list_all_iff .
  ultimately have "fst (k, v) \<in> set (map fst css_schema)" by blast
  with assms(2) show False by simp
qed

lemma house_not_in_schema: "''house'' \<notin> set (map fst css_schema)"
  by (simp add: css_schema_def)

lemma perfume_name_not_in_schema: "''perfume_name'' \<notin> set (map fst css_schema)"
  by (simp add: css_schema_def)

text \<open>
  C9. For a raw record of the schema, the output has \<open>house\<close> and \<open>perfume_name\<close> both or
  neither. When the decoded path is not a perfume path, it has neither, and the title is
  the raw title, also when \<open>sex\<close> and \<open>title\<close> are present.
\<close>

theorem house_and_perfume_name_together:
  assumes "normalize env url (JObj item) = Inr out"
    and "schema_keyed item"
    and "url_path env url = Inr path"
  shows "(has_key ''house'' out \<longleftrightarrow> has_key ''perfume_name'' out)
       \<and> (\<not> perfume_path (py_split ''/'' path)
            \<longrightarrow> \<not> has_key ''house'' out \<and> \<not> has_key ''perfume_name'' out
                \<and> map_of out ''title'' = map_of item ''title'')"
proof (cases "perfume_path (py_split ''/'' path)")
  case True
  from normalize_InrD [OF assms(1)] obtain item1 where
    d: "derive_from_url env url (process_notes item1) = Inr out" by blast
  from derive_from_url_names [OF d assms(3) True] True show ?thesis
    by (simp add: has_key_def)
next
  case False
  from normalize_InrD [OF assms(1)] obtain item1 where
    f: "flatten_accords item = Inr item1" and
    d: "derive_from_url env url (process_notes item1) = Inr out" by blast
  from d derive_from_url_no_match [OF assms(3) False]
  have o: "out = process_notes item1" by simp
  have h: "map_of out ''house'' = None"
    using schema_keyed_absent [OF assms(2) house_not_in_schema]
    by (simp add: o process_notes_lookup flatten_accords_other [OF f])
  have p: "map_of out ''perfume_name'' = None"
    using schema_keyed_absent [OF assms(2) perfume_name_not_in_schema]
    by (simp add: o process_notes_lookup flatten_accords_other [OF f])
  have t: "map_of out ''title'' = map_of item ''title''"
    by (simp add: o process_notes_lookup flatten_accords_other [OF f])
  from h p t show ?thesis by (simp add: has_key_def)
qed

theorem house_and_perfume_name_together_witness:
  "schema_keyed zino_item
   \<and> \<not> perfume_path (py_split ''/'' designer_path)
   \<and> \<not> has_key ''house'' designer_out \<and> \<not> has_key ''perfume_name'' designer_out
   \<and> map_of designer_out ''title'' = Some (JStr ''Zino for women and men'')
   \<and> has_key ''house'' zino_out \<and> has_key ''perfume_name'' zino_out"
proof -
  have s: "schema_keyed zino_item" by code_simp
  have m: "\<not> perfume_path (py_split ''/'' designer_path)" by code_simp
  have t: "map_of zino_item ''title'' = Some (JStr ''Zino for women and men'')"
    by (simp add: zino_item_def)
  have z: "has_key ''house'' zino_out" by code_simp
  from house_and_perfume_name_together [OF designer_normalize s page_env_url_path]
    house_and_perfume_name_together [OF zino_normalize s zino_env_url_path] s m t z
  show ?thesis by simp
qed







section \<open>Title\<close>





section \<open>The batch\<close>

lemma batch_env_zino: "process_url batch_env zino_url = zino_out"
  by code_simp

lemma batch_env_textless:
  "process_url batch_env textless_url
     = error_entry (''Error processing '' @ textless_url @ '': key'')"
  by code_simp

lemma batch_env_empty:
  "process_url batch_env empty_url = error_entry (''No data extracted from '' @ empty_url)"
  by code_simp

lemma zino_out_no_error: "\<not> has_key ''error'' zino_out"
  by code_simp

lemma fold_partition_step:
  "fold partition_step rs acc =
     (fst acc @ filter (\<lambda>r. \<not> has_key ''error'' r) rs,
      snd acc @ filter (has_key ''error'') rs)"
  by (induction rs arbitrary: acc) (auto simp: partition_step_def)

lemma scrape_fragrances_filter:
  "scrape_fragrances env urls =
     (filter (\<lambda>r. \<not> has_key ''error'' r) (map (process_url env) urls),
      filter (has_key ''error'') (map (process_url env) urls))"
  by (simp add: scrape_fragrances_def Let_def fold_partition_step)

lemma has_key_error_entry: "has_key ''error'' (error_entry msg)"
  by (simp add: has_key_def error_entry_def)

lemma scrape_fragrances_error_url:
  assumes "has_key ''error'' (process_url env url)"
  shows "scrape_fragrances env (before @ url # after) =
     (fst (scrape_fragrances env (before @ after)),
      snd (scrape_fragrances env before) @ [process_url env url]
        @ snd (scrape_fragrances env after))"
  using assms by (simp add: scrape_fragrances_filter)

text \<open>
  C1. The results and the errors of a batch are the outcomes of its URLs, each URL in
  exactly one of the two: the results come, in order, from the URLs whose outcome has no
  \<open>error\<close> key, the errors from the others, and these two groups of URLs together are the
  input, each URL as often as the input has it. So their lengths add up to the number of
  URLs.
\<close>

theorem batch_partition_complete:
  "length (fst (scrape_fragrances env urls)) + length (snd (scrape_fragrances env urls))
     = length urls
   \<and> fst (scrape_fragrances env urls)
       = map (process_url env) (filter (\<lambda>url. \<not> has_key ''error'' (process_url env url)) urls)
   \<and> snd (scrape_fragrances env urls)
       = map (process_url env) (filter (\<lambda>url. has_key ''error'' (process_url env url)) urls)
   \<and> mset (filter (\<lambda>url. \<not> has_key ''error'' (process_url env url)) urls)
       + mset (filter (\<lambda>url. has_key ''error'' (process_url env url)) urls)
       = mset urls"
proof -
  have l: "length (filter (\<lambda>r. \<not> has_key ''error'' r) (map (process_url env) urls))
      + length (filter (has_key ''error'') (map (process_url env) urls)) = length urls"
    using sum_length_filter_compl [of "has_key ''error''" "map (process_url env) urls"]
    by simp
  have r: "filter (\<lambda>r. \<not> has_key ''error'' r) (map (process_url env) urls)
      = map (process_url env) (filter (\<lambda>url. \<not> has_key ''error'' (process_url env url)) urls)"
    by (simp add: filter_map comp_def)
  have e: "filter (has_key ''error'') (map (process_url env) urls)
      = map (process_url env) (filter (\<lambda>url. has_key ''error'' (process_url env url)) urls)"
    by (simp add: filter_map comp_def)
  have m: "mset (filter (\<lambda>url. \<not> has_key ''error'' (process_url env url)) urls)
       + mset (filter (\<lambda>url. has_key ''error'' (process_url env url)) urls) = mset urls"
    by (induction urls) auto
  from l r e m show ?thesis by (simp add: scrape_fragrances_filter)
qed

theorem batch_partition_complete_witness:
  "scrape_fragrances batch_env [textless_url, zino_url, empty_url]
     = ([zino_out],
        [error_entry (''Error processing '' @ textless_url @ '': key''),
         error_entry (''No data extracted from '' @ empty_url)])
   \<and> length (fst (scrape_fragrances batch_env [textless_url, zino_url, empty_url]))
       + length (snd (scrape_fragrances batch_env [textless_url, zino_url, empty_url])) = 3"
proof -
  note b = batch_partition_complete [of batch_env "[textless_url, zino_url, empty_url]"]
  have f: "fst (scrape_fragrances batch_env [textless_url, zino_url, empty_url]) = [zino_out]"
    using b by (simp add: batch_env_zino batch_env_textless batch_env_empty
        has_key_error_entry zino_out_no_error)
  have s: "snd (scrape_fragrances batch_env [textless_url, zino_url, empty_url])
     = [error_entry (''Error processing '' @ textless_url @ '': key''),
        error_entry (''No data extracted from '' @ empty_url)]"
    using b by (simp add: batch_env_zino batch_env_textless batch_env_empty
        has_key_error_entry zino_out_no_error)
  from b have l: "length (fst (scrape_fragrances batch_env [textless_url, zino_url, empty_url]))
       + length (snd (scrape_fragrances batch_env [textless_url, zino_url, empty_url])) = 3"
    by simp
  from f s l show ?thesis by (simp add: prod_eq_iff)
qed

section \<open>Errors of one URL\<close>

lemma process_url_body_empty:
  assumes "arun env url = Inr result" and "success result"
    and "json_loads env (extracted_content result) = Inr data" and "\<not> py_truthy data"
  shows "process_url_body env url = Inr (error_entry (''No data extracted from '' @ url))"
  using assms by (simp add: process_url_body_def)

text \<open>
  C6, as the code has it. When the crawl of a URL succeeds and the extracted content is
  an empty list (or any other falsy value), the outcome of the URL is the one-entry
  dictionary \<open>{"error": "No data extracted from <url>"}\<close>. A batch of that URL alone has
  no result and this one error; in any batch the URL adds this one entry to the errors
  and nothing to the results.
\<close>

theorem empty_extraction_error:
  assumes "arun env url = Inr result" and "success result"
    and "json_loads env (extracted_content result) = Inr data" and "\<not> py_truthy data"
  shows "process_url env url = [(''error'', JStr (''No data extracted from '' @ url))]
       \<and> scrape_fragrances env [url]
           = ([], [[(''error'', JStr (''No data extracted from '' @ url))]])
       \<and> scrape_fragrances env (before @ url # after)
           = (fst (scrape_fragrances env (before @ after)),
              snd (scrape_fragrances env before)
                @ [[(''error'', JStr (''No data extracted from '' @ url))]]
                @ snd (scrape_fragrances env after))"
proof -
  from process_url_body_empty [OF assms]
  have p: "process_url env url = error_entry (''No data extracted from '' @ url)"
    by (simp add: process_url_def)
  then have k: "has_key ''error'' (process_url env url)" by (simp add: has_key_error_entry)
  from scrape_fragrances_error_url [OF k, of before after]
    scrape_fragrances_error_url [OF k, of "[]" "[]"] p
  show ?thesis by (simp add: error_entry_def scrape_fragrances_filter)
qed

theorem empty_extraction_error_witness:
  "\<not> py_truthy (JList [])
   \<and> process_url batch_env empty_url
       = [(''error'', JStr (''No data extracted from '' @ empty_url))]
   \<and> scrape_fragrances batch_env [empty_url]
       = ([], [[(''error'', JStr (''No data extracted from '' @ empty_url))]])"
proof -
  have a: "arun batch_env empty_url
      = Inr \<lparr>success = True, error_message = [], extracted_content = empty_url\<rparr>"
    by (simp add: batch_env_def)
  have j: "json_loads batch_env
      (extracted_content \<lparr>success = True, error_message = [], extracted_content = empty_url\<rparr>)
      = Inr (JList [])" by code_simp
  from empty_extraction_error [OF a _ j, of "[]" "[]"] show ?thesis by simp
qed

theorem empty_extraction_shape_counterexample:
  "json_loads batch_env empty_url = Inr (JList [])
   \<and> scrape_fragrances batch_env [empty_url]
       = ([], [[(''error'', JStr (''No data extracted from '' @ empty_url))]])
   \<and> map_of [(''error'', JStr (''No data extracted from '' @ empty_url))] ''url'' = None
   \<and> map_of [(''error'', JStr (''No data extracted from '' @ empty_url))] ''message'' = None
   \<and> ''No data extracted from '' @ empty_url \<noteq> ''no data extracted''"
proof -
  have j: "json_loads batch_env empty_url = Inr (JList [])" by code_simp
  have s: "scrape_fragrances batch_env [empty_url]
       = ([], [[(''error'', JStr (''No data extracted from '' @ empty_url))]])"
    by (simp add: scrape_fragrances_filter batch_env_empty has_key_error_entry)
      (simp add: error_entry_def)
  have u: "map_of [(''error'', JStr (''No data extracted from '' @ empty_url))] ''url'' = None"
    by simp
  have m: "map_of [(''error'', JStr (''No data extracted from '' @ empty_url))] ''message''
      = None" by simp
  have n: "''No data extracted from '' @ empty_url \<noteq> ''no data extracted''" by simp
  from j s u m n show ?thesis by (intro conjI)
qed

lemma process_url_body_textless:
  assumes "arun env url = Inr result" and "success result"
    and "json_loads env (extracted_content result) = Inr (JList (JObj item # rest))"
    and "map_of item ''accords'' = Some (JList accs)"
    and "accord \<in> set accs" and "py_getitem accord ''text'' = Inl e'"
  shows "\<exists>e. process_url_body env url = Inl e"
proof -
  from flatten_accords_missing_text [OF assms(4,5,6)] obtain e where
    "flatten_accords item = Inl e" by blast
  then have "normalize env url (JObj item) = Inl e" by (simp add: normalize_def)
  with assms(1,2,3) have "process_url_body env url = Inl e"
    by (simp add: process_url_body_def)
  then show ?thesis by blast
qed

text \<open>
  C8. Whatever exception the processing of a URL raises, \<open>process_url\<close> returns the
  dictionary \<open>{"error": "Error processing <url>: <text of the exception>"}\<close> for it. In a
  batch, that entry is added to the errors at the place of the URL, and the results and the
  errors of the URLs before and after it are what they are without it. A raw record with an
  accord that has no \<open>text\<close> is one such case: its processing raises.
\<close>

theorem failure_isolation:
  "(process_url_body env url = Inl e \<longrightarrow>
      process_url env url
        = [(''error'', JStr (''Error processing '' @ url @ '': '' @ exn_str env e))]
      \<and> scrape_fragrances env (before @ url # after)
          = (fst (scrape_fragrances env (before @ after)),
             snd (scrape_fragrances env before)
               @ [[(''error'', JStr (''Error processing '' @ url @ '': '' @ exn_str env e))]]
               @ snd (scrape_fragrances env after)))
   \<and> (arun env url = Inr result \<and> success result
        \<and> json_loads env (extracted_content result) = Inr (JList (JObj item # rest))
        \<and> map_of item ''accords'' = Some (JList accs)
        \<and> accord \<in> set accs \<and> py_getitem accord ''text'' = Inl e'
      \<longrightarrow> (\<exists>e. process_url_body env url = Inl e))"
proof (intro conjI impI)
  assume b: "process_url_body env url = Inl e"
  then have p: "process_url env url
      = error_entry (''Error processing '' @ url @ '': '' @ exn_str env e)"
    by (simp add: process_url_def)
  then show "process_url env url
        = [(''error'', JStr (''Error processing '' @ url @ '': '' @ exn_str env e))]"
    by (simp add: error_entry_def)
  from p have k: "has_key ''error'' (process_url env url)" by (simp add: has_key_error_entry)
  from scrape_fragrances_error_url [OF k, of before after] p
  show "scrape_fragrances env (before @ url # after)
          = (fst (scrape_fragrances env (before @ after)),
             snd (scrape_fragrances env before)
               @ [[(''error'', JStr (''Error processing '' @ url @ '': '' @ exn_str env e))]]
               @ snd (scrape_fragrances env after))"
    by (simp add: error_entry_def)
next
  assume a: "arun env url = Inr result \<and> success result
        \<and> json_loads env (extracted_content result) = Inr (JList (JObj item # rest))
        \<and> map_of item ''accords'' = Some (JList accs)
        \<and> accord \<in> set accs \<and> py_getitem accord ''text'' = Inl e'"
  then show "\<exists>e. process_url_body env url = Inl e"
    using process_url_body_textless [of env url result item rest accs accord e'] by blast
qed

theorem failure_isolation_witness:
  "arun batch_env textless_url
     = Inr \<lparr>success = True, error_message = [], extracted_content = textless_url\<rparr>
   \<and> json_loads batch_env textless_url = Inr (JList [JObj textless_item])
   \<and> map_of textless_item ''accords'' = Some (JList [JObj [(''label'', JStr ''Woody'')]])
   \<and> py_getitem (JObj [(''label'', JStr ''Woody'')]) ''text'' = Inl (KeyError (JStr ''text''))
   \<and> (\<exists>e. process_url_body batch_env textless_url = Inl e)
   \<and> process_url_body batch_env textless_url = Inl (KeyError (JStr ''text''))
   \<and> process_url batch_env textless_url
       = [(''error'', JStr (''Error processing '' @ textless_url @ '': key''))]
   \<and> scrape_fragrances batch_env ([zino_url] @ textless_url # [empty_url])
       = (fst (scrape_fragrances batch_env ([zino_url] @ [empty_url])),
          snd (scrape_fragrances batch_env [zino_url])
            @ [[(''error'', JStr (''Error processing '' @ textless_url @ '': key''))]]
            @ snd (scrape_fragrances batch_env [empty_url]))
   \<and> fst (scrape_fragrances batch_env ([zino_url] @ textless_url # [empty_url])) = [zino_out]"
proof -
  let ?result = "\<lparr>success = True, error_message = [], extracted_content = textless_url\<rparr>"
  let ?accord = "JObj [(''label'', JStr ''Woody'')]"
  have a: "arun batch_env textless_url = Inr ?result" by (simp add: batch_env_def)
  have j: "json_loads batch_env textless_url = Inr (JList [JObj textless_item])" by code_simp
  have c: "map_of textless_item ''accords'' = Some (JList [?accord])"
    by (simp add: textless_item_def)
  have g: "py_getitem ?accord ''text'' = Inl (KeyError (JStr ''text''))" by simp
  have b: "process_url_body batch_env textless_url = Inl (KeyError (JStr ''text''))"
    by code_simp
  have x: "exn_str batch_env (KeyError (JStr ''text'')) = ''key''"
    by (simp add: batch_env_def)
  have r: "fst (scrape_fragrances batch_env ([zino_url] @ [empty_url])) = [zino_out]"
    by (simp add: scrape_fragrances_filter batch_env_zino batch_env_empty
        has_key_error_entry zino_out_no_error)
  note f = failure_isolation [of batch_env textless_url "KeyError (JStr ''text'')"
      "[zino_url]" "[empty_url]" ?result textless_item "[]" "[?accord]" ?accord
      "KeyError (JStr ''text'')"]
  from f a j c g have ex: "\<exists>e. process_url_body batch_env textless_url = Inl e" by simp
  from f b x r have rest: "process_url batch_env textless_url
       = [(''error'', JStr (''Error processing '' @ textless_url @ '': key''))]
   \<and> scrape_fragrances batch_env ([zino_url] @ textless_url # [empty_url])
       = (fst (scrape_fragrances batch_env ([zino_url] @ [empty_url])),
          snd (scrape_fragrances batch_env [zino_url])
            @ [[(''error'', JStr (''Error processing '' @ textless_url @ '': key''))]]
            @ snd (scrape_fragrances batch_env [empty_url]))
   \<and> fst (scrape_fragrances batch_env ([zino_url] @ textless_url # [empty_url])) = [zino_out]"
    by simp
  from a j c g ex b rest show ?thesis by blast
qed

end
